theory Spec2Isabelle
  imports Complex_Main
begin

section \<open>The polarization simulation engine of \<^verbatim>\<open>simulation/simulation.py\<close>\<close>

text \<open>
  The engine is the class \<^verbatim>\<open>Simulation\<close>: a constructor, \<^verbatim>\<open>step\<close> and \<^verbatim>\<open>reset\<close>, and
  the module-level function \<^verbatim>\<open>single_exponential_polarization\<close>.

  Modelling decisions.
  \<^item> Python floats are modelled as \<^typ>\<open>real\<close>: arithmetic is exact, there is no rounding,
    no infinity and no NaN. Every statement below is about the formulas the code
    evaluates, not about their IEEE-754 rounding.
  \<^item> The object's attributes are the fields of the record \<open>simulation\<close>; a method takes
    the object and returns the mutated object.
  \<^item> The only exception the arithmetic can raise is \<^verbatim>\<open>ZeroDivisionError\<close> (float division
    by a zero divisor). A method that can raise returns the object as the exception
    leaves it (the assignments made before the raise are kept) together with either
    the error or the returned value.
  \<^item> \<^verbatim>\<open>random.random()\<close> and the draw inside \<^verbatim>\<open>random.uniform\<close> are inputs of \<open>step\<close>
    (the record \<open>draws\<close>), so that any outcome of the generator can be supplied.
  \<^item> The debug \<^verbatim>\<open>print\<close> calls have no effect on the object and are left out.
\<close>

subsection \<open>Constants and the decay law\<close>

datatype error = ZeroDivisionError

definition ELECTRON_CHARGE :: real where
  "ELECTRON_CHARGE = 1.602 / 10 ^ 19"

text \<open>
  \<^verbatim>\<open>if dose <= 1e-12: return pmax else: return pmax * math.exp(-dose / phi)\<close>.
  The division raises when \<open>phi\<close> is zero.
\<close>

definition single_exponential_polarization :: "real \<Rightarrow> real \<Rightarrow> real \<Rightarrow> error + real" where
  "single_exponential_polarization dose pmax phi =
     (if dose \<le> 1 / 10 ^ 12 then Inr pmax
      else if phi = 0 then Inl ZeroDivisionError
      else Inr (pmax * exp (- dose / phi)))"

subsection \<open>The object\<close>

record simulation =
  beam_current :: real
  time_step :: real
  beam_area :: real
  microwave_frequency :: real
  pmax :: real
  phi :: real
  accumulated_dose :: real
  polarization :: real
  time_elapsed :: real
  in_trip :: bool
  trip_start :: real
  trip_duration :: real
  min_trip_duration :: real
  max_trip_duration :: real
  trip_prob_per_step :: real

text \<open>
  The body of \<^verbatim>\<open>__init__\<close>, in the order of its parameters. The attributes \<open>pmax\<close> and
  \<open>phi\<close> are assigned literals; the attribute \<open>polarization\<close> is assigned the parameter
  \<open>pmax\<close>.
\<close>

definition Simulation_init ::
  "real \<Rightarrow> real \<Rightarrow> real \<Rightarrow> real \<Rightarrow> real \<Rightarrow> real \<Rightarrow> real \<Rightarrow> real \<times> real \<Rightarrow> simulation" where
  "Simulation_init beam_current_arg time_step_arg beam_area_arg microwave_frequency_arg
       pmax_arg phi_arg trip_rate_per_hour trip_duration_min =
     \<lparr> beam_current = beam_current_arg,
       time_step = time_step_arg,
       beam_area = beam_area_arg,
       microwave_frequency = microwave_frequency_arg,
       pmax = 0.95,
       phi = 25.6 * 10 ^ 15 * 1.13,
       accumulated_dose = 0,
       polarization = pmax_arg,
       time_elapsed = 0,
       in_trip = False,
       trip_start = 0,
       trip_duration = 0,
       min_trip_duration = fst trip_duration_min,
       max_trip_duration = snd trip_duration_min,
       trip_prob_per_step = trip_rate_per_hour / 3600 \<rparr>"

text \<open>
  The call \<^verbatim>\<open>Simulation(...)\<close>: it yields the new object unless \<^verbatim>\<open>__init__\<close> raises.
  The body of \<^verbatim>\<open>__init__\<close> has no \<^verbatim>\<open>raise\<close>, no assertion and no check of its
  arguments, and its only arithmetic is a division by the literal 3600.
\<close>

definition Simulation ::
  "real \<Rightarrow> real \<Rightarrow> real \<Rightarrow> real \<Rightarrow> real \<Rightarrow> real \<Rightarrow> real \<Rightarrow> real \<times> real \<Rightarrow> error + simulation" where
  "Simulation beam_current_arg time_step_arg beam_area_arg microwave_frequency_arg
       pmax_arg phi_arg trip_rate_per_hour trip_duration_min =
     Inr (Simulation_init beam_current_arg time_step_arg beam_area_arg microwave_frequency_arg
            pmax_arg phi_arg trip_rate_per_hour trip_duration_min)"

subsection \<open>One step\<close>

text \<open>
  The argument \<^verbatim>\<open>action\<close> is \<^verbatim>\<open>None\<close> or a dictionary, modelled as the list of its
  items (a key is looked up with \<open>map_of\<close>); \<^verbatim>\<open>if action:\<close> is false for \<^verbatim>\<open>None\<close> and
  for the empty dictionary.
\<close>

type_synonym action = "(string \<times> real) list option"

definition apply_action :: "simulation \<Rightarrow> action \<Rightarrow> simulation" where
  "apply_action s action =
     (case action of
        None \<Rightarrow> s
      | Some a \<Rightarrow>
          if a = [] then s
          else
            let s1 = (case map_of a ''beam_current'' of
                        Some x \<Rightarrow> s\<lparr>beam_current := x\<rparr> | None \<Rightarrow> s)
            in (case map_of a ''microwave_frequency'' of
                  Some x \<Rightarrow> s1\<lparr>microwave_frequency := x\<rparr> | None \<Rightarrow> s1))"

text \<open>
  The two random numbers a step may consume: \<open>rand_trip\<close> is the value of
  \<^verbatim>\<open>random.random()\<close>, \<open>rand_duration\<close> the value of the generator's draw inside
  \<^verbatim>\<open>random.uniform(a, b)\<close>, which the standard library computes as \<open>a + (b - a) * random()\<close>.
\<close>

record draws =
  rand_trip :: real
  rand_duration :: real

definition uniform :: "real \<Rightarrow> real \<Rightarrow> real \<Rightarrow> real" where
  "uniform a b r = a + (b - a) * r"

text \<open>
  Section 2 of \<^verbatim>\<open>step\<close>, the beam trip logic: the object after it and the local
  \<^verbatim>\<open>current_beam\<close>.
\<close>

definition beam_trip_logic :: "simulation \<Rightarrow> draws \<Rightarrow> simulation \<times> real" where
  "beam_trip_logic s d =
     (if in_trip s then
        let s1 = (if time_elapsed s - trip_start s > trip_duration s
                  then s\<lparr>in_trip := False\<rparr> else s)
        in (s1, if in_trip s1 then 0 else beam_current s1)
      else
        let p_trip = trip_prob_per_step s * time_step s
        in if rand_trip d < p_trip then
             (s\<lparr>in_trip := True,
                trip_start := time_elapsed s,
                trip_duration := uniform (min_trip_duration s) (max_trip_duration s)
                                   (rand_duration d)\<rparr>, 0)
           else (s, beam_current s))"

text \<open>Section 3, the dose increment. The division raises when its divisor is zero.\<close>

definition dose_increment :: "simulation \<Rightarrow> real \<Rightarrow> error + simulation" where
  "dose_increment s current_beam =
     (if current_beam > 0 then
        if ELECTRON_CHARGE * beam_area s = 0 then Inl ZeroDivisionError
        else
          let dDose = (current_beam * time_step s) / (ELECTRON_CHARGE * beam_area s)
          in Inr (s\<lparr>accumulated_dose := accumulated_dose s + dDose\<rparr>)
      else Inr s)"

text \<open>Section 5: \<^verbatim>\<open>microwave_effect = -(self.microwave_frequency - 140.1) * 0.0001\<close>.\<close>

definition microwave_effect :: "simulation \<Rightarrow> real" where
  "microwave_effect s = - (microwave_frequency s - 140.1) * 0.0001"

text \<open>
  Sections 1 to 5 and the first assignment of "Combine",
  \<^verbatim>\<open>self.polarization = base_pol + microwave_effect\<close>: the object at that point, the local
  \<^verbatim>\<open>current_beam\<close>, and the exception if one was raised on the way.
\<close>

definition step_combine :: "simulation \<Rightarrow> action \<Rightarrow> draws \<Rightarrow> simulation \<times> real \<times> error option" where
  "step_combine s action d =
     (let s1 = apply_action s action;
          (s2, current_beam) = beam_trip_logic s1 d
      in case dose_increment s2 current_beam of
           Inl e \<Rightarrow> (s2, current_beam, Some e)
         | Inr s3 \<Rightarrow>
             (case single_exponential_polarization (accumulated_dose s3) (pmax s3) (phi s3) of
                Inl e \<Rightarrow> (s3, current_beam, Some e)
              | Inr base_pol \<Rightarrow>
                  (s3\<lparr>polarization := base_pol + microwave_effect s3\<rparr>, current_beam, None)))"

text \<open>The dictionary \<^verbatim>\<open>step\<close> returns; its keys carry the prefix \<open>snap_\<close>.\<close>

record snapshot =
  snap_time :: real
  snap_polarization :: real
  snap_accumulated_dose :: real
  snap_beam_current :: real
  snap_in_trip :: bool
  snap_microwave_frequency :: real

text \<open>
  The whole of \<^verbatim>\<open>step\<close>: after the combination, the clamp
  \<^verbatim>\<open>max(0.0, min(1.0, self.polarization))\<close>, the advance of the clock and the returned
  dictionary.
\<close>

definition step :: "simulation \<Rightarrow> action \<Rightarrow> draws \<Rightarrow> simulation \<times> (error + snapshot)" where
  "step s action d =
     (case step_combine s action d of
        (s', current_beam, Some e) \<Rightarrow> (s', Inl e)
      | (s4, current_beam, None) \<Rightarrow>
          let s5 = s4\<lparr>polarization := max 0 (min 1 (polarization s4))\<rparr>;
              s6 = s5\<lparr>time_elapsed := time_elapsed s5 + time_step s5\<rparr>
          in (s6, Inr \<lparr> snap_time = time_elapsed s6,
                        snap_polarization = polarization s6,
                        snap_accumulated_dose = accumulated_dose s6,
                        snap_beam_current = current_beam,
                        snap_in_trip = in_trip s6,
                        snap_microwave_frequency = microwave_frequency s6 \<rparr>))"

subsection \<open>Reset\<close>

definition reset :: "simulation \<Rightarrow> simulation" where
  "reset s = s\<lparr>accumulated_dose := 0,
              polarization := pmax s,
              time_elapsed := 0,
              in_trip := False,
              trip_start := 0,
              trip_duration := 0\<rparr>"

subsection \<open>Sequences of calls\<close>

text \<open>
  A caller's loop of \<^verbatim>\<open>step\<close> calls, as in \<^verbatim>\<open>app.py\<close>: after each call, the object and
  what the call returned or raised. An exception ends the loop.
\<close>

fun steps :: "simulation \<Rightarrow> (action \<times> draws) list \<Rightarrow> (simulation \<times> (error + snapshot)) list" where
  "steps s [] = []"
| "steps s ((a, d) # xs) =
     (case step s a d of
        (s', Inl e) \<Rightarrow> [(s', Inl e)]
      | (s', Inr snap) \<Rightarrow> (s', Inr snap) # steps s' xs)"

text \<open>
  Any use of one object: \<^verbatim>\<open>step\<close> calls (a caller may catch the exception and go on),
  \<^verbatim>\<open>reset\<close> calls, and the assignment \<^verbatim>\<open>sim.microwave_frequency += delta\<close> that
  \<^verbatim>\<open>app.py\<close> makes from its two buttons.
\<close>

datatype call = Step action draws | Reset | Nudge real

fun run :: "simulation \<Rightarrow> call list \<Rightarrow> simulation" where
  "run s [] = s"
| "run s (Step a d # cs) = run (fst (step s a d)) cs"
| "run s (Reset # cs) = run (reset s) cs"
| "run s (Nudge delta # cs) = run (s\<lparr>microwave_frequency := microwave_frequency s + delta\<rparr>) cs"

section \<open>Properties\<close>

subsection \<open>Fields that a step does not touch\<close>

lemma apply_action_frame:
  "time_step (apply_action s a) = time_step s"
  "beam_area (apply_action s a) = beam_area s"
  "pmax (apply_action s a) = pmax s"
  "phi (apply_action s a) = phi s"
  "accumulated_dose (apply_action s a) = accumulated_dose s"
  "polarization (apply_action s a) = polarization s"
  "time_elapsed (apply_action s a) = time_elapsed s"
  "in_trip (apply_action s a) = in_trip s"
  "trip_start (apply_action s a) = trip_start s"
  "trip_duration (apply_action s a) = trip_duration s"
  "min_trip_duration (apply_action s a) = min_trip_duration s"
  "max_trip_duration (apply_action s a) = max_trip_duration s"
  "trip_prob_per_step (apply_action s a) = trip_prob_per_step s"
  by (simp_all add: apply_action_def Let_def split: option.splits)

lemma beam_trip_logic_frame:
  "beam_current (fst (beam_trip_logic s d)) = beam_current s"
  "time_step (fst (beam_trip_logic s d)) = time_step s"
  "beam_area (fst (beam_trip_logic s d)) = beam_area s"
  "microwave_frequency (fst (beam_trip_logic s d)) = microwave_frequency s"
  "pmax (fst (beam_trip_logic s d)) = pmax s"
  "phi (fst (beam_trip_logic s d)) = phi s"
  "accumulated_dose (fst (beam_trip_logic s d)) = accumulated_dose s"
  "polarization (fst (beam_trip_logic s d)) = polarization s"
  "time_elapsed (fst (beam_trip_logic s d)) = time_elapsed s"
  "min_trip_duration (fst (beam_trip_logic s d)) = min_trip_duration s"
  "max_trip_duration (fst (beam_trip_logic s d)) = max_trip_duration s"
  "trip_prob_per_step (fst (beam_trip_logic s d)) = trip_prob_per_step s"
  by (simp_all add: beam_trip_logic_def Let_def)

lemma dose_increment_cases:
  "dose_increment s c = Inl e \<Longrightarrow> 0 < c \<and> beam_area s = 0"
  "dose_increment s c = Inr s' \<Longrightarrow>
     s' = s\<lparr>accumulated_dose := accumulated_dose s +
            (if 0 < c then c * time_step s / (ELECTRON_CHARGE * beam_area s) else 0)\<rparr>"
  by (auto simp add: dose_increment_def ELECTRON_CHARGE_def Let_def split: if_splits)

subsection \<open>The three ways a call of step can end\<close>

lemma step_raises_at_dose:
  assumes "dose_increment (fst (beam_trip_logic (apply_action s a) d))
             (snd (beam_trip_logic (apply_action s a) d)) = Inl e"
  shows "step s a d = (fst (beam_trip_logic (apply_action s a) d), Inl e)"
  using assms by (simp add: step_def step_combine_def Let_def case_prod_beta)

lemma step_raises_at_decay:
  assumes "dose_increment (fst (beam_trip_logic (apply_action s a) d))
             (snd (beam_trip_logic (apply_action s a) d)) = Inr s3"
    and "single_exponential_polarization (accumulated_dose s3) (pmax s3) (phi s3) = Inl e"
  shows "step s a d = (s3, Inl e)"
  using assms by (simp add: step_def step_combine_def Let_def case_prod_beta)

lemma step_returns:
  assumes "dose_increment (fst (beam_trip_logic (apply_action s a) d))
             (snd (beam_trip_logic (apply_action s a) d)) = Inr s3"
    and "single_exponential_polarization (accumulated_dose s3) (pmax s3) (phi s3) = Inr b"
  shows "step s a d =
     (s3\<lparr>polarization := max 0 (min 1 (b + microwave_effect s3)),
         time_elapsed := time_elapsed s3 + time_step s3\<rparr>,
      Inr \<lparr> snap_time = time_elapsed s3 + time_step s3,
            snap_polarization = max 0 (min 1 (b + microwave_effect s3)),
            snap_accumulated_dose = accumulated_dose s3,
            snap_beam_current = snd (beam_trip_logic (apply_action s a) d),
            snap_in_trip = in_trip s3,
            snap_microwave_frequency = microwave_frequency s3 \<rparr>)"
  using assms by (simp add: step_def step_combine_def Let_def case_prod_beta)

lemma step_cases:
  obtains
    (raises_at_dose) e where
      "dose_increment (fst (beam_trip_logic (apply_action s a) d))
             (snd (beam_trip_logic (apply_action s a) d)) = Inl e"
  | (raises_at_decay) s3 e where
      "dose_increment (fst (beam_trip_logic (apply_action s a) d))
             (snd (beam_trip_logic (apply_action s a) d)) = Inr s3"
      "single_exponential_polarization (accumulated_dose s3) (pmax s3) (phi s3) = Inl e"
  | (returns) s3 b where
      "dose_increment (fst (beam_trip_logic (apply_action s a) d))
             (snd (beam_trip_logic (apply_action s a) d)) = Inr s3"
      "single_exponential_polarization (accumulated_dose s3) (pmax s3) (phi s3) = Inr b"
proof (cases "dose_increment (fst (beam_trip_logic (apply_action s a) d))
             (snd (beam_trip_logic (apply_action s a) d))")
  case (Inl e)
  then show ?thesis by (rule raises_at_dose)
next
  case (Inr s3)
  then show ?thesis
    by (cases "single_exponential_polarization (accumulated_dose s3) (pmax s3) (phi s3)")
       (auto intro: raises_at_decay returns)
qed


lemma step_frame:
  "time_step (fst (step s a d)) = time_step s
   \<and> beam_area (fst (step s a d)) = beam_area s
   \<and> pmax (fst (step s a d)) = pmax s
   \<and> phi (fst (step s a d)) = phi s
   \<and> min_trip_duration (fst (step s a d)) = min_trip_duration s
   \<and> max_trip_duration (fst (step s a d)) = max_trip_duration s
   \<and> trip_prob_per_step (fst (step s a d)) = trip_prob_per_step s
   \<and> beam_current (fst (step s a d)) = beam_current (apply_action s a)
   \<and> microwave_frequency (fst (step s a d)) = microwave_frequency (apply_action s a)
   \<and> in_trip (fst (step s a d)) = in_trip (fst (beam_trip_logic (apply_action s a) d))
   \<and> trip_start (fst (step s a d)) = trip_start (fst (beam_trip_logic (apply_action s a) d))
   \<and> trip_duration (fst (step s a d)) = trip_duration (fst (beam_trip_logic (apply_action s a) d))"
proof (cases s a d rule: step_cases)
  case (raises_at_dose e)
  show ?thesis
    by (simp add: step_raises_at_dose [OF raises_at_dose] beam_trip_logic_frame apply_action_frame)
next
  case (raises_at_decay s3 e)
  show ?thesis
    by (simp add: step_raises_at_decay [OF raises_at_decay]
          dose_increment_cases(2) [OF raises_at_decay(1)] beam_trip_logic_frame apply_action_frame)
next
  case (returns s3 b)
  show ?thesis
    by (simp add: step_returns [OF returns]
          dose_increment_cases(2) [OF returns(1)] beam_trip_logic_frame apply_action_frame)
qed





subsection \<open>Construction\<close>

text \<open>
  C8. Whatever \<open>pmax\<close> and \<open>phi\<close> arguments the caller passes, the constructor returns an
  object whose \<open>pmax\<close> attribute is 0.95 and whose \<open>phi\<close> attribute is 25.6e15 * 1.13.
\<close>

theorem init_pins_pmax_phi:
  "\<exists>s. Simulation bc ts ba mf p ph rate dur = Inr s
       \<and> pmax s = 0.95 \<and> phi s = 25.6 * 10 ^ 15 * 1.13"
  by (simp add: Simulation_def Simulation_init_def)

text \<open>
  C1 fails on the code: the constructor checks nothing. At a negative time step, a zero
  beam area and a \<open>pmax\<close> argument of 5 it returns an object.
\<close>

theorem constructor_invalid_counterexample:
  "Simulation (2 / 10 ^ 9) (- 1) 0 140.1 5 1 12 (20, 300) =
     Inr \<lparr> beam_current = 2 / 10 ^ 9, time_step = - 1, beam_area = 0,
           microwave_frequency = 140.1, pmax = 0.95, phi = 25.6 * 10 ^ 15 * 1.13,
           accumulated_dose = 0, polarization = 5, time_elapsed = 0, in_trip = False,
           trip_start = 0, trip_duration = 0, min_trip_duration = 20,
           max_trip_duration = 300, trip_prob_per_step = 12 / 3600 \<rparr>"
  by (simp add: Simulation_def Simulation_init_def)

text \<open>
  C1, as the code has it: for every argument list, valid or not, the constructor returns
  an object, and that object stores the beam current, the time step and the beam area
  as they were passed and the \<open>pmax\<close> argument as its polarization.
\<close>

theorem constructor_accepts_any:
  "\<exists>s. Simulation bc ts ba mf p ph rate dur = Inr s
       \<and> beam_current s = bc \<and> time_step s = ts \<and> beam_area s = ba \<and> polarization s = p"
  by (simp add: Simulation_def Simulation_init_def)



subsection \<open>Reset\<close>

text \<open>
  C9. \<open>reset\<close> sets the accumulated dose, the clock, the trip flag, the trip start and
  the trip duration to zero (false), the polarization to the object's \<open>pmax\<close>, and leaves
  every other attribute as it was.
\<close>

theorem reset_effect:
  "accumulated_dose (reset s) = 0
   \<and> polarization (reset s) = pmax s
   \<and> time_elapsed (reset s) = 0
   \<and> in_trip (reset s) = False
   \<and> trip_start (reset s) = 0
   \<and> trip_duration (reset s) = 0
   \<and> beam_current (reset s) = beam_current s
   \<and> beam_area (reset s) = beam_area s
   \<and> time_step (reset s) = time_step s
   \<and> microwave_frequency (reset s) = microwave_frequency s
   \<and> pmax (reset s) = pmax s
   \<and> phi (reset s) = phi s
   \<and> trip_prob_per_step (reset s) = trip_prob_per_step s
   \<and> min_trip_duration (reset s) = min_trip_duration s
   \<and> max_trip_duration (reset s) = max_trip_duration s"
  by (simp add: reset_def)

subsection \<open>Polarization bounds\<close>





subsection \<open>Dose accumulation\<close>

lemma ELECTRON_CHARGE_pos: "0 < ELECTRON_CHARGE"
  by (simp add: ELECTRON_CHARGE_def)

lemma step_combine_current:
  "fst (snd (step_combine s a d)) = snd (beam_trip_logic (apply_action s a) d)"
  by (simp add: step_combine_def Let_def case_prod_beta split: sum.splits)

lemma step_dose:
  assumes "step s a d = (s', Inr snap)"
  shows "accumulated_dose s' = accumulated_dose s +
           (if 0 < snap_beam_current snap
            then (snap_beam_current snap * time_step s) / (ELECTRON_CHARGE * beam_area s) else 0)
         \<and> snap_accumulated_dose snap = accumulated_dose s'
         \<and> snap_beam_current snap = snd (beam_trip_logic (apply_action s a) d)
         \<and> snap_in_trip snap = in_trip s'"
proof (cases s a d rule: step_cases)
  case (raises_at_dose e)
  with assms show ?thesis by (simp add: step_raises_at_dose)
next
  case (raises_at_decay s3 e)
  with assms show ?thesis by (simp add: step_raises_at_decay)
next
  case (returns s3 b)
  from assms step_returns [OF returns] dose_increment_cases(2) [OF returns(1)]
  show ?thesis
    by (auto simp add: beam_trip_logic_frame apply_action_frame)
qed

lemma increment_sign:
  assumes "0 < c" "0 \<le> ts * ba"
  shows "0 \<le> (c * ts) / (ELECTRON_CHARGE * ba :: real)"
proof -
  have q: "0 \<le> ts / ba" using assms(2) by (simp add: zero_le_divide_iff zero_le_mult_iff)
  have eq: "(c * ts) / (ELECTRON_CHARGE * ba) = (c / ELECTRON_CHARGE) * (ts / ba)" by simp
  have r: "0 \<le> c / ELECTRON_CHARGE" using assms(1) ELECTRON_CHARGE_pos by simp
  show ?thesis unfolding eq using r q by (rule mult_nonneg_nonneg)
qed

lemma step_dose_mono:
  assumes "0 \<le> time_step s * beam_area s"
  shows "accumulated_dose s \<le> accumulated_dose (fst (step s a d))"
proof (cases s a d rule: step_cases)
  case (raises_at_dose e)
  show ?thesis
    by (simp add: step_raises_at_dose [OF raises_at_dose] beam_trip_logic_frame apply_action_frame)
next
  case (raises_at_decay s3 e)
  show ?thesis
    using increment_sign [OF _ assms]
    by (simp add: step_raises_at_decay [OF raises_at_decay]
          dose_increment_cases(2) [OF raises_at_decay(1)] beam_trip_logic_frame apply_action_frame)
next
  case (returns s3 b)
  show ?thesis
    using increment_sign [OF _ assms]
    by (simp add: step_returns [OF returns]
          dose_increment_cases(2) [OF returns(1)] beam_trip_logic_frame apply_action_frame)
qed

lemma steps_dose_sorted:
  assumes "0 \<le> time_step s * beam_area s"
  shows "sorted (accumulated_dose s # map (\<lambda>(s', r). accumulated_dose s') (steps s xs))"
  using assms
proof (induction xs arbitrary: s)
  case Nil
  then show ?case by simp
next
  case (Cons x xs)
  obtain a d where x: "x = (a, d)" by (cases x)
  obtain s1 r1 where st: "step s a d = (s1, r1)" by (cases "step s a d")
  have le: "accumulated_dose s \<le> accumulated_dose s1"
    using step_dose_mono [OF Cons.prems, of a d] st by simp
  have pre: "0 \<le> time_step s1 * beam_area s1"
    using step_frame [of s a d] st Cons.prems by simp
  show ?case
  proof (cases r1)
    case (Inl e)
    with st x le show ?thesis by simp
  next
    case (Inr snap)
    have unfold: "steps s (x # xs) = (s1, Inr snap) # steps s1 xs"
      using st x Inr by simp
    have "sorted (accumulated_dose s # accumulated_dose s1
            # map (\<lambda>(s', r). accumulated_dose s') (steps s1 xs))"
      using Cons.IH [OF pre] le by (simp only: sorted2 simp_thms)
    then show ?thesis by (simp only: unfold list.map prod.case)
  qed
qed

text \<open>
  C3 fails on the code as stated: the constructor accepts a negative time step, and with
  it a step that delivers beam lowers the accumulated dose (from 0 to -10^13/801 here).
\<close>

theorem dose_decreases_counterexample:
  "step (Simulation_init (2 / 10 ^ 9) (- 1) 1 140.1 0.95 (25.6 * 10 ^ 15 * 1.13) 12 (20, 300))
      None \<lparr>rand_trip = 1 / 2, rand_duration = 0\<rparr> =
     (\<lparr> beam_current = 2 / 10 ^ 9, time_step = - 1, beam_area = 1,
         microwave_frequency = 140.1, pmax = 0.95, phi = 25.6 * 10 ^ 15 * 1.13,
         accumulated_dose = - (10 ^ 13 / 801), polarization = 0.95, time_elapsed = - 1,
         in_trip = False, trip_start = 0, trip_duration = 0, min_trip_duration = 20,
         max_trip_duration = 300, trip_prob_per_step = 12 / 3600 \<rparr>,
      Inr \<lparr> snap_time = - 1, snap_polarization = 0.95,
            snap_accumulated_dose = - (10 ^ 13 / 801), snap_beam_current = 2 / 10 ^ 9,
            snap_in_trip = False, snap_microwave_frequency = 140.1 \<rparr>)
   \<and> accumulated_dose (Simulation_init (2 / 10 ^ 9) (- 1) 1 140.1 0.95
         (25.6 * 10 ^ 15 * 1.13) 12 (20, 300)) = 0"
  by (simp add: step_def step_combine_def apply_action_def beam_trip_logic_def
        dose_increment_def single_exponential_polarization_def microwave_effect_def
        Simulation_init_def ELECTRON_CHARGE_def Let_def)

text \<open>
  C3, as the code has it. On any step that returns, the accumulated dose grows by
  exactly (delivered current * time_step) / (ELECTRON_CHARGE * beam_area), with
  ELECTRON_CHARGE = 1.602e-19, when the delivered current is strictly positive, and is
  unchanged otherwise. Over any sequence of step calls the accumulated dose is
  non-decreasing provided time_step and beam_area do not have opposite signs
  (time_step * beam_area >= 0, which holds under the documented precondition
  time_step > 0 and beam_area > 0 and which the constructor does not enforce).
\<close>

theorem dose_accumulation:
  "ELECTRON_CHARGE = 1.602 / 10 ^ 19
   \<and> (\<forall>s' snap. step s a d = (s', Inr snap) \<longrightarrow>
         accumulated_dose s' = accumulated_dose s +
           (if 0 < snap_beam_current snap
            then (snap_beam_current snap * time_step s) / (ELECTRON_CHARGE * beam_area s) else 0))
   \<and> (0 \<le> time_step s * beam_area s \<longrightarrow>
         sorted (accumulated_dose s # map (\<lambda>(s', r). accumulated_dose s') (steps s xs)))"
  using step_dose steps_dose_sorted by (simp add: ELECTRON_CHARGE_def)

theorem dose_accumulation_witness:
  "accumulated_dose (fst (step (Simulation_init (2 / 10 ^ 9) 1 1 140.1 0.95 1 12 (20, 300))
      None \<lparr>rand_trip = 1 / 2, rand_duration = 0\<rparr>)) = (2 / 10 ^ 9 * 1) / (1.602 / 10 ^ 19 * 1)
   \<and> sorted (accumulated_dose (Simulation_init (2 / 10 ^ 9) 1 1 140.1 0.95 1 12 (20, 300))
        # map (\<lambda>(s', r). accumulated_dose s')
            (steps (Simulation_init (2 / 10 ^ 9) 1 1 140.1 0.95 1 12 (20, 300))
               [(None, \<lparr>rand_trip = 1 / 2, rand_duration = 0\<rparr>),
                (None, \<lparr>rand_trip = 0, rand_duration = 1 / 2\<rparr>)]))"
  using dose_accumulation [of "Simulation_init (2 / 10 ^ 9) 1 1 140.1 0.95 1 12 (20, 300)"
      None "\<lparr>rand_trip = 1 / 2, rand_duration = 0\<rparr>"
      "[(None, \<lparr>rand_trip = 1 / 2, rand_duration = 0\<rparr>),
        (None, \<lparr>rand_trip = 0, rand_duration = 1 / 2\<rparr>)]"]
  by (simp add: step_def step_combine_def apply_action_def beam_trip_logic_def
        dose_increment_def single_exponential_polarization_def microwave_effect_def
        Simulation_init_def ELECTRON_CHARGE_def Let_def)

subsection \<open>The decay law at the reference frequency\<close>

lemma run_frame:
  "pmax (run s cs) = pmax s \<and> phi (run s cs) = phi s
   \<and> time_step (run s cs) = time_step s \<and> beam_area (run s cs) = beam_area s"
proof (induction cs arbitrary: s)
  case Nil
  then show ?case by simp
next
  case (Cons c cs)
  show ?case
  proof (cases c)
    case (Step a d)
    with Cons.IH [of "fst (step s a d)"] step_frame [of s a d]
    show ?thesis by simp
  next
    case Reset
    with Cons.IH [of "reset s"] show ?thesis by (simp add: reset_def)
  next
    case (Nudge delta)
    with Cons.IH [of "s\<lparr>microwave_frequency := microwave_frequency s + delta\<rparr>"]
    show ?thesis by simp
  qed
qed

lemma base_in_range:
  assumes "0 \<le> pm" "pm \<le> 1" "0 < ph"
    and "single_exponential_polarization dose pm ph = Inr b"
  shows "0 \<le> b \<and> b \<le> 1"
proof (cases "dose \<le> 1 / 10 ^ 12")
  case True
  with assms show ?thesis by (simp add: single_exponential_polarization_def)
next
  case False
  then have pos: "0 < dose" by (simp add: not_le order_less_trans [of 0 "1 / 10 ^ 12"])
  have b: "b = pm * exp (- dose / ph)"
    using assms False by (simp add: single_exponential_polarization_def)
  have "- dose / ph \<le> 0"
    using pos assms(3) by (simp add: divide_le_0_iff)
  then have e1: "exp (- dose / ph) \<le> 1" by (simp only: exp_le_one_iff)
  have e0: "0 \<le> exp (- dose / ph)" by simp
  have "pm * exp (- dose / ph) \<le> 1 * 1"
    using assms(1,2) e0 e1 by (intro mult_mono) simp_all
  moreover have "0 \<le> pm * exp (- dose / ph)"
    using assms(1) e0 by (rule mult_nonneg_nonneg)
  ultimately show ?thesis unfolding b by simp
qed

lemma step_returns_unless:
  assumes "phi s \<noteq> 0" and "beam_area s \<noteq> 0"
  shows "\<exists>s' snap. step s a d = (s', Inr snap)"
proof (cases s a d rule: step_cases)
  case (raises_at_dose e)
  from dose_increment_cases(1) [OF raises_at_dose] assms(2) show ?thesis
    by (simp add: beam_trip_logic_frame apply_action_frame)
next
  case (raises_at_decay s3 e)
  from raises_at_decay(2) dose_increment_cases(2) [OF raises_at_decay(1)] assms(1)
  show ?thesis
    by (simp add: single_exponential_polarization_def beam_trip_logic_frame apply_action_frame
          split: if_splits)
next
  case (returns s3 b)
  from step_returns [OF returns] show ?thesis by blast
qed

lemma step_polarization_at_reference:
  assumes pm: "0 \<le> pmax s" "pmax s \<le> 1" and ph: "0 < phi s"
    and freq: "microwave_frequency (apply_action s a) = 140.1"
    and st: "step s a d = (s', Inr snap)"
  shows "single_exponential_polarization (accumulated_dose s') (pmax s') (phi s')
           = Inr (polarization s')
         \<and> snap_polarization snap = polarization s'"
proof (cases s a d rule: step_cases)
  case (raises_at_dose e)
  with st show ?thesis by (simp add: step_raises_at_dose)
next
  case (raises_at_decay s3 e)
  with st show ?thesis by (simp add: step_raises_at_decay)
next
  case (returns s3 b)
  note s3 = dose_increment_cases(2) [OF returns(1)]
  have p3: "pmax s3 = pmax s" "phi s3 = phi s"
    by (simp_all add: s3 beam_trip_logic_frame apply_action_frame)
  have "0 \<le> b \<and> b \<le> 1"
    using returns(2) base_in_range [OF pm ph] unfolding p3 by blast
  moreover have "microwave_effect s3 = 0"
    using freq by (simp add: microwave_effect_def s3 beam_trip_logic_frame)
  ultimately have clamp: "max 0 (min 1 (b + microwave_effect s3)) = b" by simp
  from st step_returns [OF returns] returns(2) show ?thesis
    by (auto simp add: clamp)
qed

text \<open>
  C4. For an object obtained from the constructor by any calls, a step taken with
  microwave frequency 140.1 (after the override) returns whenever the beam area is not
  zero, and when it returns the polarization, in the object and in the snapshot, is the
  base polarization of the decay law at the new accumulated dose: \<open>pmax\<close> when the dose
  is at most 1e-12, \<open>pmax * exp (- dose / phi)\<close> otherwise, with the pinned \<open>pmax\<close> and
  \<open>phi\<close>.
\<close>

theorem decay_law_at_reference_frequency:
  assumes reach: "s = run (Simulation_init bc ts ba mf p ph rate dur) cs"
    and freq: "microwave_frequency (apply_action s a) = 140.1"
  shows "(beam_area s \<noteq> 0 \<longrightarrow> (\<exists>s' snap. step s a d = (s', Inr snap)))
    \<and> (\<forall>s' snap. step s a d = (s', Inr snap) \<longrightarrow>
          polarization s' =
            (if accumulated_dose s' \<le> 1 / 10 ^ 12 then pmax s'
             else pmax s' * exp (- accumulated_dose s' / phi s'))
          \<and> single_exponential_polarization (accumulated_dose s') (pmax s') (phi s')
              = Inr (polarization s')
          \<and> snap_polarization snap = polarization s'
          \<and> pmax s' = 0.95 \<and> phi s' = 25.6 * 10 ^ 15 * 1.13)"
proof -
  have pin: "pmax s = 0.95" "phi s = 25.6 * 10 ^ 15 * 1.13"
    unfolding reach using run_frame [of "Simulation_init bc ts ba mf p ph rate dur" cs]
    by (simp_all add: Simulation_init_def)
  have rng: "0 \<le> pmax s" "pmax s \<le> 1" "0 < phi s" "phi s \<noteq> 0"
    unfolding pin by simp_all
  have "polarization s' =
            (if accumulated_dose s' \<le> 1 / 10 ^ 12 then pmax s'
             else pmax s' * exp (- accumulated_dose s' / phi s'))
          \<and> single_exponential_polarization (accumulated_dose s') (pmax s') (phi s')
              = Inr (polarization s')
          \<and> snap_polarization snap = polarization s'
          \<and> pmax s' = 0.95 \<and> phi s' = 25.6 * 10 ^ 15 * 1.13"
    if st: "step s a d = (s', Inr snap)" for s' snap
  proof -
    have fr: "pmax s' = pmax s" "phi s' = phi s"
      using step_frame [of s a d] st by simp_all
    note ps = step_polarization_at_reference [OF rng(1,2,3) freq st]
    have law: "polarization s' =
            (if accumulated_dose s' \<le> 1 / 10 ^ 12 then pmax s'
             else pmax s' * exp (- accumulated_dose s' / phi s'))"
      using ps rng(4) unfolding fr
      by (simp add: single_exponential_polarization_def split: if_splits)
    have base: "single_exponential_polarization (accumulated_dose s') (pmax s') (phi s')
              = Inr (polarization s')"
      using ps by (rule conjunct1)
    have snap: "snap_polarization snap = polarization s'"
      using ps by (rule conjunct2)
    have pm': "pmax s' = 0.95" unfolding fr(1) by (fact pin(1))
    have ph': "phi s' = 25.6 * 10 ^ 15 * 1.13" unfolding fr(2) by (fact pin(2))
    show ?thesis by (intro conjI; fact)
  qed
  with step_returns_unless [OF rng(4)] show ?thesis by blast
qed

theorem decay_law_at_reference_frequency_witness:
  "polarization (fst (step (Simulation_init (2 / 10 ^ 9) 1 1 140.1 0.5 1 12 (20, 300))
      None \<lparr>rand_trip = 1 / 2, rand_duration = 0\<rparr>))
     = 0.95 * exp (- ((2 / 10 ^ 9 * 1) / (1.602 / 10 ^ 19 * 1)) / (25.6 * 10 ^ 15 * 1.13))"
  using decay_law_at_reference_frequency [of
      "Simulation_init (2 / 10 ^ 9) 1 1 140.1 0.5 1 12 (20, 300)"
      "2 / 10 ^ 9" 1 1 "140.1" "0.5" 1 12 "(20, 300)" "[]" None
      "\<lparr>rand_trip = 1 / 2, rand_duration = 0\<rparr>"]
  by (simp add: step_def step_combine_def apply_action_def beam_trip_logic_def
        dose_increment_def single_exponential_polarization_def microwave_effect_def
        Simulation_init_def ELECTRON_CHARGE_def Let_def)

subsection \<open>The trip state machine\<close>

lemma tripped_logic:
  assumes "in_trip s"
  shows "beam_trip_logic s d =
     (if time_elapsed s - trip_start s > trip_duration s
      then (s\<lparr>in_trip := False\<rparr>, beam_current s) else (s, 0))"
  using assms by (simp add: beam_trip_logic_def Let_def)

lemma normal_logic:
  assumes "\<not> in_trip s"
  shows "beam_trip_logic s d =
     (if rand_trip d < trip_prob_per_step s * time_step s
      then (s\<lparr>in_trip := True, trip_start := time_elapsed s,
               trip_duration := uniform (min_trip_duration s) (max_trip_duration s)
                                  (rand_duration d)\<rparr>, 0)
      else (s, beam_current s))"
  using assms by (simp add: beam_trip_logic_def Let_def)

text \<open>
  C5. A step that starts tripped with \<open>time_elapsed - trip_start > trip_duration\<close> leaves
  the object not tripped, and the beam current it delivers (the local \<open>current_beam\<close>,
  and the \<open>beam_current\<close> entry of the snapshot when the call returns) is the object's
  beam current after the override, not the 0 of a trip.
\<close>

theorem trip_end_resumes_beam:
  assumes "in_trip s" and "time_elapsed s - trip_start s > trip_duration s"
  shows "\<not> in_trip (fst (step s a d))
    \<and> fst (snd (step_combine s a d)) = beam_current (fst (step s a d))
    \<and> beam_current (fst (step s a d)) = beam_current (apply_action s a)
    \<and> (\<forall>snap. snd (step s a d) = Inr snap \<longrightarrow>
          snap_beam_current snap = beam_current (fst (step s a d)) \<and> \<not> snap_in_trip snap)"
proof -
  have t: "in_trip (apply_action s a)"
    "time_elapsed (apply_action s a) - trip_start (apply_action s a)
       > trip_duration (apply_action s a)"
    using assms by (simp_all add: apply_action_frame)
  have l: "beam_trip_logic (apply_action s a) d =
      ((apply_action s a)\<lparr>in_trip := False\<rparr>, beam_current (apply_action s a))"
    using tripped_logic [OF t(1)] t(2) by simp
  have a: "\<not> in_trip (fst (step s a d))"
    using step_frame [of s a d] by (simp add: l)
  have b: "beam_current (fst (step s a d)) = beam_current (apply_action s a)"
    using step_frame [of s a d] by simp
  have c: "fst (snd (step_combine s a d)) = beam_current (fst (step s a d))"
    by (simp add: step_combine_current l b)
  have d: "snap_beam_current snap = beam_current (fst (step s a d)) \<and> \<not> snap_in_trip snap"
    if "snd (step s a d) = Inr snap" for snap
  proof -
    from that have "step s a d = (fst (step s a d), Inr snap)"
      by (metis prod.collapse)
    from step_dose [OF this] a b show ?thesis by (simp add: l)
  qed
  from a b c d show ?thesis by blast
qed

theorem trip_end_resumes_beam_witness:
  "\<not> in_trip (fst (step
         \<lparr> beam_current = 2 / 10 ^ 9, time_step = 1, beam_area = 1,
           microwave_frequency = 140.1, pmax = 0.95, phi = 25.6 * 10 ^ 15 * 1.13,
           accumulated_dose = 0, polarization = 0.95, time_elapsed = 100, in_trip = True,
           trip_start = 40, trip_duration = 50, min_trip_duration = 20,
           max_trip_duration = 300, trip_prob_per_step = 12 / 3600 \<rparr>
         None \<lparr>rand_trip = 0, rand_duration = 0\<rparr>))
   \<and> snap_beam_current (projr (snd (step
         \<lparr> beam_current = 2 / 10 ^ 9, time_step = 1, beam_area = 1,
           microwave_frequency = 140.1, pmax = 0.95, phi = 25.6 * 10 ^ 15 * 1.13,
           accumulated_dose = 0, polarization = 0.95, time_elapsed = 100, in_trip = True,
           trip_start = 40, trip_duration = 50, min_trip_duration = 20,
           max_trip_duration = 300, trip_prob_per_step = 12 / 3600 \<rparr>
         None \<lparr>rand_trip = 0, rand_duration = 0\<rparr>))) = 2 / 10 ^ 9"
  using trip_end_resumes_beam [of "\<lparr> beam_current = 2 / 10 ^ 9, time_step = 1, beam_area = 1,
           microwave_frequency = 140.1, pmax = 0.95, phi = 25.6 * 10 ^ 15 * 1.13,
           accumulated_dose = 0, polarization = 0.95, time_elapsed = 100, in_trip = True,
           trip_start = 40, trip_duration = 50, min_trip_duration = 20,
           max_trip_duration = 300, trip_prob_per_step = 12 / 3600 \<rparr>" None
           "\<lparr>rand_trip = 0, rand_duration = 0\<rparr>"]
  by (simp add: step_def step_combine_def apply_action_def beam_trip_logic_def
        dose_increment_def single_exponential_polarization_def microwave_effect_def
        ELECTRON_CHARGE_def Let_def)

lemma zero_current_step:
  assumes l: "snd (beam_trip_logic (apply_action s a) d) = 0"
  shows "accumulated_dose (fst (step s a d)) = accumulated_dose s
    \<and> (phi s \<noteq> 0 \<longrightarrow> (\<exists>snap. snd (step s a d) = Inr snap))
    \<and> (\<forall>snap. snd (step s a d) = Inr snap \<longrightarrow>
          snap_beam_current snap = 0
          \<and> snap_in_trip snap = in_trip (fst (step s a d))
          \<and> time_elapsed (fst (step s a d)) = time_elapsed s + time_step s)"
proof -
  let ?s2 = "fst (beam_trip_logic (apply_action s a) d)"
  have di: "dose_increment ?s2 (snd (beam_trip_logic (apply_action s a) d)) = Inr ?s2"
    by (simp add: l dose_increment_def)
  show ?thesis
  proof (cases "single_exponential_polarization (accumulated_dose ?s2) (pmax ?s2) (phi ?s2)")
    case (Inl e)
    have "phi s = 0"
      using Inl
      by (simp add: single_exponential_polarization_def beam_trip_logic_frame
            apply_action_frame split: if_splits)
    then show ?thesis
      by (simp add: step_raises_at_decay [OF di Inl] beam_trip_logic_frame apply_action_frame)
  next
    case (Inr b)
    show ?thesis
      by (simp add: step_returns [OF di Inr] l beam_trip_logic_frame apply_action_frame)
  qed
qed

lemma tripped_step:
  assumes "in_trip s" and "time_elapsed s - trip_start s \<le> trip_duration s"
  shows "in_trip (fst (step s a d))
    \<and> trip_start (fst (step s a d)) = trip_start s
    \<and> trip_duration (fst (step s a d)) = trip_duration s
    \<and> snd (beam_trip_logic (apply_action s a) d) = 0"
proof -
  have "beam_trip_logic (apply_action s a) d = (apply_action s a, 0)"
    using tripped_logic [of "apply_action s a" d] assms by (simp add: apply_action_frame)
  then show ?thesis
    using step_frame [of s a d] assms(1) by (simp add: apply_action_frame)
qed

lemma tripped_steps:
  assumes "in_trip s"
    and "\<forall>k<length xs. time_elapsed s + real k * time_step s - trip_start s \<le> trip_duration s"
  shows "(\<forall>(s', r) \<in> set (steps s xs).
            in_trip s' \<and> accumulated_dose s' = accumulated_dose s
            \<and> (\<forall>snap. r = Inr snap \<longrightarrow> snap_beam_current snap = 0 \<and> snap_in_trip snap))
         \<and> (phi s \<noteq> 0 \<longrightarrow> length (steps s xs) = length xs)"
  using assms
proof (induction xs arbitrary: s)
  case Nil
  then show ?case by simp
next
  case (Cons x xs)
  obtain a d where x: "x = (a, d)" by (cases x)
  obtain s1 r1 where st: "step s a d = (s1, r1)" by (cases "step s a d")
  have now: "time_elapsed s - trip_start s \<le> trip_duration s"
    using Cons.prems(2) by auto
  note ts = tripped_step [OF Cons.prems(1) now, of a d]
  note zc = zero_current_step [of s a d, OF conjunct2 [OF conjunct2 [OF conjunct2 [OF ts]]]]
  have s1: "in_trip s1" "trip_start s1 = trip_start s" "trip_duration s1 = trip_duration s"
    "accumulated_dose s1 = accumulated_dose s" "time_step s1 = time_step s" "phi s1 = phi s"
    using ts zc step_frame [of s a d] st by simp_all
  show ?case
  proof (cases r1)
    case (Inl e)
    have "phi s = 0" using zc st Inl by auto
    with Inl st x s1 show ?thesis by simp
  next
    case (Inr snap)
    have snap: "snap_beam_current snap = 0" "snap_in_trip snap"
      "time_elapsed s1 = time_elapsed s + time_step s"
      using zc st Inr s1(1) by simp_all
    have later: "\<forall>k<length xs.
        time_elapsed s1 + real k * time_step s1 - trip_start s1 \<le> trip_duration s1"
    proof (intro allI impI)
      fix k assume "k < length xs"
      then have "Suc k < length (x # xs)" by simp
      with Cons.prems(2)
      have "time_elapsed s + real (Suc k) * time_step s - trip_start s \<le> trip_duration s"
        by blast
      then show "time_elapsed s1 + real k * time_step s1 - trip_start s1 \<le> trip_duration s1"
        by (simp add: snap(3) s1 algebra_simps)
    qed
    from Cons.IH [OF s1(1) later] snap s1 st x Inr show ?thesis by auto
  qed
qed

lemma uniform_range:
  assumes "a \<le> b" "0 \<le> r" "r \<le> 1"
  shows "a \<le> uniform a b r \<and> uniform a b r \<le> b"
proof -
  have "0 \<le> (b - a) * r" using assms by simp
  moreover have "(b - a) * r \<le> (b - a) * 1"
    using assms by (intro mult_left_mono) simp_all
  ultimately show ?thesis by (simp add: uniform_def)
qed

text \<open>
  C6. A step that starts not tripped enters the trip exactly when the draw
  \<open>rand_trip\<close> is strictly below \<open>trip_prob_per_step * time_step\<close>. On entry the trip
  start is the clock at the start of the step, the trip duration is the value
  \<open>min_trip_duration + (max_trip_duration - min_trip_duration) * rand_duration\<close> that
  \<^verbatim>\<open>random.uniform\<close> makes of its draw (between the two bounds when they are ordered
  and the draw is in [0, 1]), nothing is delivered (the
  local \<open>current_beam\<close> and the snapshot's beam current are 0, the dose does not move),
  and the same holds in every later call of a sequence of steps as long as each starts
  with \<open>time_elapsed - trip_start \<le> trip_duration\<close>. Without entry the step delivers the
  object's beam current.
\<close>

theorem trip_entry:
  assumes "\<not> in_trip s"
  shows "(in_trip (fst (step s a d)) \<longleftrightarrow> rand_trip d < trip_prob_per_step s * time_step s)
    \<and> (rand_trip d < trip_prob_per_step s * time_step s \<longrightarrow>
         trip_start (fst (step s a d)) = time_elapsed s
         \<and> trip_duration (fst (step s a d)) =
             min_trip_duration s
               + (max_trip_duration s - min_trip_duration s) * rand_duration d
         \<and> (min_trip_duration s \<le> max_trip_duration s
              \<and> 0 \<le> rand_duration d \<and> rand_duration d \<le> 1 \<longrightarrow>
              min_trip_duration s \<le> trip_duration (fst (step s a d))
              \<and> trip_duration (fst (step s a d)) \<le> max_trip_duration s)
         \<and> fst (snd (step_combine s a d)) = 0
         \<and> accumulated_dose (fst (step s a d)) = accumulated_dose s
         \<and> (\<forall>snap. snd (step s a d) = Inr snap \<longrightarrow>
               snap_beam_current snap = 0 \<and> snap_in_trip snap)
         \<and> ((\<forall>k<length xs. time_elapsed (fst (step s a d)) + real k * time_step s
                  - trip_start (fst (step s a d)) \<le> trip_duration (fst (step s a d))) \<longrightarrow>
              (\<forall>(s', r) \<in> set (steps (fst (step s a d)) xs).
                  in_trip s' \<and> accumulated_dose s' = accumulated_dose s
                  \<and> (\<forall>snap. r = Inr snap \<longrightarrow>
                        snap_beam_current snap = 0 \<and> snap_in_trip snap))))
    \<and> (\<not> rand_trip d < trip_prob_per_step s * time_step s \<longrightarrow>
         fst (snd (step_combine s a d)) = beam_current (fst (step s a d))
         \<and> (\<forall>snap. snd (step s a d) = Inr snap \<longrightarrow>
               snap_beam_current snap = beam_current (fst (step s a d))
               \<and> \<not> snap_in_trip snap))"
proof -
  let ?s1 = "apply_action s a"
  let ?p = "trip_prob_per_step s * time_step s"
  have n: "\<not> in_trip ?s1" using assms by (simp add: apply_action_frame)
  note l = normal_logic [OF n, of d, unfolded apply_action_frame]
  have snapf: "snap_beam_current snap = snd (beam_trip_logic ?s1 d)
      \<and> snap_in_trip snap = in_trip (fst (step s a d))"
    if "snd (step s a d) = Inr snap" for snap
  proof -
    from that have "step s a d = (fst (step s a d), Inr snap)" by (metis prod.collapse)
    from step_dose [OF this] show ?thesis by simp
  qed
  show ?thesis
  proof (cases "rand_trip d < ?p")
    case True
    have l': "beam_trip_logic ?s1 d =
        (?s1\<lparr>in_trip := True, trip_start := time_elapsed s,
             trip_duration := uniform (min_trip_duration s) (max_trip_duration s)
                                (rand_duration d)\<rparr>, 0)"
      using l True by simp
    have f: "in_trip (fst (step s a d))" "trip_start (fst (step s a d)) = time_elapsed s"
      "trip_duration (fst (step s a d)) =
         uniform (min_trip_duration s) (max_trip_duration s) (rand_duration d)"
      "time_step (fst (step s a d)) = time_step s"
      using step_frame [of s a d] by (simp_all add: l')
    have z: "snd (beam_trip_logic ?s1 d) = 0" by (simp add: l')
    note zc = zero_current_step [OF z]
    have c: "fst (snd (step_combine s a d)) = 0" by (simp add: step_combine_current z)
    have sn: "\<forall>snap. snd (step s a d) = Inr snap \<longrightarrow>
               snap_beam_current snap = 0 \<and> snap_in_trip snap"
      using snapf z f(1) by simp
    have later: "\<forall>(s', r) \<in> set (steps (fst (step s a d)) xs).
                  in_trip s' \<and> accumulated_dose s' = accumulated_dose s
                  \<and> (\<forall>snap. r = Inr snap \<longrightarrow> snap_beam_current snap = 0 \<and> snap_in_trip snap)"
      if "\<forall>k<length xs. time_elapsed (fst (step s a d)) + real k * time_step s
                  - trip_start (fst (step s a d)) \<le> trip_duration (fst (step s a d))"
      using tripped_steps [OF f(1), of xs] that zc by (simp add: f(4))
    have rng: "min_trip_duration s \<le> trip_duration (fst (step s a d))
              \<and> trip_duration (fst (step s a d)) \<le> max_trip_duration s"
      if "min_trip_duration s \<le> max_trip_duration s
              \<and> 0 \<le> rand_duration d \<and> rand_duration d \<le> 1"
      using uniform_range that unfolding f(3) by blast
    have dur: "trip_duration (fst (step s a d)) =
             min_trip_duration s
               + (max_trip_duration s - min_trip_duration s) * rand_duration d"
      using f(3) by (simp only: uniform_def)
    from True f(1,2,4) dur c sn later rng zc show ?thesis by blast
  next
    case False
    have l': "beam_trip_logic ?s1 d = (?s1, beam_current ?s1)"
      using l False by simp
    have f: "\<not> in_trip (fst (step s a d))"
      "beam_current (fst (step s a d)) = beam_current ?s1"
      using step_frame [of s a d] n by (simp_all add: l')
    have c: "fst (snd (step_combine s a d)) = beam_current (fst (step s a d))"
      by (simp add: step_combine_current l' f(2))
    have sn: "\<forall>snap. snd (step s a d) = Inr snap \<longrightarrow>
               snap_beam_current snap = beam_current (fst (step s a d))
               \<and> \<not> snap_in_trip snap"
      using snapf f by (simp add: l')
    from False f c sn show ?thesis by blast
  qed
qed

theorem trip_entry_witness:
  "in_trip (fst (step (Simulation_init (2 / 10 ^ 9) 1 1 140.1 0.95 1 3600 (20, 300))
       None \<lparr>rand_trip = 1 / 2, rand_duration = 1 / 4\<rparr>))
   \<and> trip_start (fst (step (Simulation_init (2 / 10 ^ 9) 1 1 140.1 0.95 1 3600 (20, 300))
       None \<lparr>rand_trip = 1 / 2, rand_duration = 1 / 4\<rparr>)) = 0
   \<and> trip_duration (fst (step (Simulation_init (2 / 10 ^ 9) 1 1 140.1 0.95 1 3600 (20, 300))
       None \<lparr>rand_trip = 1 / 2, rand_duration = 1 / 4\<rparr>)) = 90
   \<and> snap_beam_current (projr (snd (step
       (Simulation_init (2 / 10 ^ 9) 1 1 140.1 0.95 1 3600 (20, 300))
       None \<lparr>rand_trip = 1 / 2, rand_duration = 1 / 4\<rparr>))) = 0
   \<and> map (\<lambda>(s', r). snap_beam_current (projr r))
        (steps (fst (step (Simulation_init (2 / 10 ^ 9) 1 1 140.1 0.95 1 3600 (20, 300))
                  None \<lparr>rand_trip = 1 / 2, rand_duration = 1 / 4\<rparr>))
           [(None, \<lparr>rand_trip = 0, rand_duration = 0\<rparr>),
            (None, \<lparr>rand_trip = 0, rand_duration = 0\<rparr>)]) = [0, 0]"
  using trip_entry [of "Simulation_init (2 / 10 ^ 9) 1 1 140.1 0.95 1 3600 (20, 300)"
      None "\<lparr>rand_trip = 1 / 2, rand_duration = 1 / 4\<rparr>"
      "[(None, \<lparr>rand_trip = 0, rand_duration = 0\<rparr>),
        (None, \<lparr>rand_trip = 0, rand_duration = 0\<rparr>)]"]
  by (simp add: step_def step_combine_def apply_action_def beam_trip_logic_def
        dose_increment_def single_exponential_polarization_def microwave_effect_def
        Simulation_init_def ELECTRON_CHARGE_def uniform_def Let_def)

subsection \<open>The microwave correction\<close>

lemma beam_trip_logic_frequency:
  "beam_trip_logic (t\<lparr>microwave_frequency := f\<rparr>) d =
     ((fst (beam_trip_logic t d))\<lparr>microwave_frequency := f\<rparr>, snd (beam_trip_logic t d))"
  by (simp add: beam_trip_logic_def Let_def)

lemma dose_increment_frequency:
  "dose_increment (t\<lparr>microwave_frequency := f\<rparr>) c =
     (case dose_increment t c of Inl e \<Rightarrow> Inl e | Inr t' \<Rightarrow> Inr (t'\<lparr>microwave_frequency := f\<rparr>))"
  by (simp add: dose_increment_def Let_def)

lemma step_combine_None:
  "step_combine s a d = step_combine (apply_action s a) None d"
  by (simp add: step_combine_def apply_action_def)

lemma step_combine_frequency:
  "step_combine (t\<lparr>microwave_frequency := f\<rparr>) None d =
     (case step_combine t None d of
        (t', c, None) \<Rightarrow>
          (t'\<lparr>microwave_frequency := f,
              polarization := polarization t' + (microwave_frequency t - f) * 0.0001\<rparr>, c, None)
      | (t', c, Some e) \<Rightarrow> (t'\<lparr>microwave_frequency := f\<rparr>, c, Some e))"
proof -
  have a: "apply_action u None = u" for u by (simp add: apply_action_def)
  show ?thesis
  proof (cases "dose_increment (fst (beam_trip_logic t d)) (snd (beam_trip_logic t d))")
    case (Inl e)
    then show ?thesis
      by (simp add: step_combine_def a beam_trip_logic_frequency dose_increment_frequency
            Let_def case_prod_beta)
  next
    case (Inr t3)
    note t3 = dose_increment_cases(2) [OF Inr]
    have mf: "microwave_frequency t3 = microwave_frequency t"
      by (simp add: t3 beam_trip_logic_frame)
    show ?thesis
      by (cases "single_exponential_polarization (accumulated_dose t3) (pmax t3) (phi t3)")
         (simp_all add: step_combine_def a beam_trip_logic_frequency dose_increment_frequency
            Let_def case_prod_beta Inr microwave_effect_def mf diff_divide_distrib)
  qed
qed

lemma apply_action_override:
  "apply_action s (Some ((''microwave_frequency'', f) # a)) =
     (apply_action s (Some ((''microwave_frequency'', 0) # a)))\<lparr>microwave_frequency := f\<rparr>"
  by (simp add: apply_action_def Let_def split: option.splits)

text \<open>
  C7. From one object, with the same other overrides and the same draws, two steps that
  differ only in the microwave frequency \<open>f1\<close> or \<open>f2\<close> (given as an override, or
  assigned to the attribute beforehand) raise or not together, deliver the same current
  and reach the same dose and trip flag, and their polarizations before the clamp differ
  by \<open>- 0.0001 * (f1 - f2)\<close>; the step's polarization is the clamp of that value.
\<close>

theorem microwave_linearity:
  "snd (step_combine s (Some ((''microwave_frequency'', f1) # a)) d)
     = snd (step_combine s (Some ((''microwave_frequency'', f2) # a)) d)
   \<and> accumulated_dose (fst (step_combine s (Some ((''microwave_frequency'', f1) # a)) d))
     = accumulated_dose (fst (step_combine s (Some ((''microwave_frequency'', f2) # a)) d))
   \<and> in_trip (fst (step_combine s (Some ((''microwave_frequency'', f1) # a)) d))
     = in_trip (fst (step_combine s (Some ((''microwave_frequency'', f2) # a)) d))
   \<and> (snd (snd (step_combine s (Some ((''microwave_frequency'', f1) # a)) d)) = None \<longrightarrow>
        polarization (fst (step_combine s (Some ((''microwave_frequency'', f1) # a)) d))
          - polarization (fst (step_combine s (Some ((''microwave_frequency'', f2) # a)) d))
        = - 0.0001 * (f1 - f2)
        \<and> polarization (fst (step s (Some ((''microwave_frequency'', f1) # a)) d))
          = max 0 (min 1
              (polarization (fst (step_combine s (Some ((''microwave_frequency'', f1) # a)) d)))))
   \<and> (snd (snd (step_combine (s\<lparr>microwave_frequency := f1\<rparr>) None d)) = None \<longrightarrow>
        polarization (fst (step_combine (s\<lparr>microwave_frequency := f1\<rparr>) None d))
          - polarization (fst (step_combine (s\<lparr>microwave_frequency := f2\<rparr>) None d))
        = - 0.0001 * (f1 - f2))"
proof -
  let ?t = "apply_action s (Some ((''microwave_frequency'', 0) # a))"
  have c: "step_combine s (Some ((''microwave_frequency'', f) # a)) d =
     (case step_combine ?t None d of
        (t', c, None) \<Rightarrow>
          (t'\<lparr>microwave_frequency := f,
              polarization := polarization t' + (microwave_frequency ?t - f) * 0.0001\<rparr>, c, None)
      | (t', c, Some e) \<Rightarrow> (t'\<lparr>microwave_frequency := f\<rparr>, c, Some e))" for f
    using step_combine_None [of s "Some ((''microwave_frequency'', f) # a)" d]
    by (simp only: apply_action_override [of s f a] step_combine_frequency)
  obtain t' cb r where sc: "step_combine ?t None d = (t', cb, r)"
    by (cases "step_combine ?t None d")
  obtain u' cu ru where su: "step_combine s None d = (u', cu, ru)"
    by (cases "step_combine s None d")
  have direct: "snd (snd (step_combine (s\<lparr>microwave_frequency := f1\<rparr>) None d)) = None \<longrightarrow>
        polarization (fst (step_combine (s\<lparr>microwave_frequency := f1\<rparr>) None d))
          - polarization (fst (step_combine (s\<lparr>microwave_frequency := f2\<rparr>) None d))
        = - 0.0001 * (f1 - f2)"
    by (cases ru) (simp_all add: step_combine_frequency su diff_divide_distrib)
  show ?thesis
    using direct by (cases r) (simp_all add: c sc step_def diff_divide_distrib)
qed

theorem microwave_linearity_witness:
  "polarization (fst (step_combine (Simulation_init 0 1 1 140.1 0.95 1 12 (20, 300))
       (Some [(''microwave_frequency'', - 1000)]) \<lparr>rand_trip = 1 / 2, rand_duration = 0\<rparr>))
     - polarization (fst (step_combine (Simulation_init 0 1 1 140.1 0.95 1 12 (20, 300))
       (Some [(''microwave_frequency'', 140.1)]) \<lparr>rand_trip = 1 / 2, rand_duration = 0\<rparr>))
     = - 0.0001 * (- 1000 - 140.1)
   \<and> polarization (fst (step_combine (Simulation_init 0 1 1 140.1 0.95 1 12 (20, 300))
       (Some [(''microwave_frequency'', - 1000)]) \<lparr>rand_trip = 1 / 2, rand_duration = 0\<rparr>))
     = 1.06401
   \<and> polarization (fst (step (Simulation_init 0 1 1 140.1 0.95 1 12 (20, 300))
       (Some [(''microwave_frequency'', - 1000)]) \<lparr>rand_trip = 1 / 2, rand_duration = 0\<rparr>))
     = 1"
  using microwave_linearity [of "Simulation_init 0 1 1 140.1 0.95 1 12 (20, 300)"
      "- 1000" "[]" "\<lparr>rand_trip = 1 / 2, rand_duration = 0\<rparr>" "140.1"]
  by (simp add: step_def step_combine_def apply_action_def beam_trip_logic_def
        dose_increment_def single_exponential_polarization_def microwave_effect_def
        Simulation_init_def ELECTRON_CHARGE_def Let_def)


end
